theory Spec2Isabelle
  imports Main "HOL-Library.Word"
begin

section \<open>The snapshot server: data model\<close>

text \<open>
  The repository holds three variants of one Express server: the push variant with
  connect/disconnect signals only (\<^verbatim>\<open>server.js\<close>), the push variant with snapshot
  routes and an inactivity check (\<^verbatim>\<open>part_000\<close>), and the on-demand variant
  (\<^verbatim>\<open>part_001\<close>). The functions \<^verbatim>\<open>getSnapshotDirect\<close>, \<^verbatim>\<open>getSnapshotONVIF\<close>,
  \<^verbatim>\<open>initializeDevice\<close>, \<^verbatim>\<open>startPolling\<close>, \<^verbatim>\<open>stopPolling\<close> and the
  \<^verbatim>\<open>/connect\<close> and \<^verbatim>\<open>/disconnect\<close> handlers are the same in every variant that has
  them, up to console output, which is not modelled.

  The module-level variables and the snapshot file form the state. Every call of an
  external library (axios, node-onvif, fs, the timer functions, the Express response) is
  recorded in a trace, together with the entry of the three acquisition functions; the
  answer of the outside world to such a call is an input of the model.
\<close>

type_synonym bytes = "8 word list"

text \<open>What a call of an acquisition function resolves to.\<close>

datatype jsval = Undefined | JBool bool

datatype payload =
    Jpeg bytes
  | ErrorJson string
  | ClientsJson string int

record response =
  status :: nat
  headers :: "(string \<times> string) list"
  payload :: payload

datatype event =
    CallAcquire
  | CallDirect
  | CallOnvif
  | DeviceInit
  | AxiosGet
  | FetchSnapshot
  | WriteFile bytes
  | ReadFile
  | SetInterval nat
  | ClearInterval nat
  | Respond response

text \<open>
  The object \<^verbatim>\<open>new onvif.OnvifDevice(...)\<close>; the flag tells whether its \<^verbatim>\<open>init\<close>
  has completed without error.
\<close>

record onvif_device =
  initialised :: bool

text \<open>A request handler suspended in \<^verbatim>\<open>await startPolling()\<close>.\<close>

datatype cont = K_connect | K_snapshot

record server =
  device :: "onvif_device option"
  snapshot_file :: "bytes option"
  lastSnapshotRequest :: int
  connectedClients :: int
  pollingInterval :: "nat option"
  timers :: "nat list"
  next_timer :: nat
  suspended :: "cont list"
  trace :: "event list"

text \<open>
  \<open>snapshot_file\<close> is the content of \<^verbatim>\<open>SNAPSHOT_PATH\<close> (\<open>None\<close>: the file does not exist).
  \<open>timers\<close> are the interval timers created by \<^verbatim>\<open>startPolling\<close> that the runtime
  still holds, \<open>next_timer\<close> the next fresh handle, \<open>suspended\<close> the handlers
  waiting in \<^verbatim>\<open>await startPolling()\<close>. The counter and the timestamps are JavaScript
  numbers, modelled as unbounded integers.
\<close>

subsection \<open>Answers of the outside world\<close>

record onvif_res =
  content_type :: "string option"
  body :: bytes

text \<open>
  \<^verbatim>\<open>fs.writeFile\<close> either fulfils, and the file holds the data, or rejects; a rejected
  write leaves behind whatever the file system had done by then (the old content, an
  empty or a partial file), given by the reply.
\<close>

datatype write_reply = Written | WriteFailed "bytes option"

text \<open>
  The answers during one acquisition: \<open>axios_reply\<close> is \<^verbatim>\<open>response.data\<close>, or
  \<open>None\<close> when \<^verbatim>\<open>axios.get\<close> rejects (timeout, status outside 2xx, transport error);
  \<open>onvif_reply\<close> is the \<^verbatim>\<open>res\<close> passed to the callback of \<^verbatim>\<open>fetchSnapshot\<close>, or
  \<open>None\<close> when the callback gets an error. Every external call is taken to settle.
\<close>

record acq_env =
  axios_reply :: "bytes option"
  direct_write :: write_reply
  onvif_reply :: "onvif_res option"
  onvif_write :: write_reply

definition emit :: "event \<Rightarrow> server \<Rightarrow> server" where
  "emit e s = s\<lparr>trace := trace s @ [e]\<rparr>"

definition new_events :: "server \<Rightarrow> server \<Rightarrow> event list" where
  "new_events s s' = drop (length (trace s)) (trace s')"

definition init_server :: "bytes option \<Rightarrow> server" where
  "init_server f =
     \<lparr>device = None, snapshot_file = f, lastSnapshotRequest = 0, connectedClients = 0,
      pollingInterval = None, timers = [], next_timer = 0, suspended = [], trace = []\<rparr>"

section \<open>Upstream fetchers\<close>

text \<open>\<^verbatim>\<open>await fs.writeFile(SNAPSHOT_PATH, data)\<close>: \<open>True\<close> when fulfilled.\<close>

definition writeFile :: "write_reply \<Rightarrow> bytes \<Rightarrow> server \<Rightarrow> bool \<times> server" where
  "writeFile w d s =
     (case w of
        Written \<Rightarrow> (True, (emit (WriteFile d) s)\<lparr>snapshot_file := Some d\<rparr>)
      | WriteFailed left \<Rightarrow> (False, (emit (WriteFile d) s)\<lparr>snapshot_file := left\<rparr>))"

text \<open>
  \<^verbatim>\<open>initializeDevice\<close> assigns the new device object to \<^verbatim>\<open>device\<close> before calling
  \<^verbatim>\<open>init\<close>; the promise is rejected when \<^verbatim>\<open>init\<close> reports an error (\<open>False\<close>),
  and nothing assigns \<^verbatim>\<open>device\<close> again. The constructor is given an object with a string
  \<^verbatim>\<open>xaddr\<close> and is taken not to throw.
\<close>

definition initializeDevice :: "bool \<Rightarrow> server \<Rightarrow> bool \<times> server" where
  "initializeDevice init_ok s =
     (let s1 = s\<lparr>device := Some \<lparr>initialised = False\<rparr>\<rparr>;
          s2 = emit DeviceInit s1
      in if init_ok then (True, s2\<lparr>device := Some \<lparr>initialised = True\<rparr>\<rparr>)
         else (False, s2))"

text \<open>
  \<^verbatim>\<open>start\<close>: the rejection of \<^verbatim>\<open>initializeDevice\<close> is caught and ignored, then the
  server listens. \<^verbatim>\<open>ensureDirectories\<close> and \<^verbatim>\<open>app.listen\<close> do not touch the state
  modelled here.
\<close>

definition start :: "bool \<Rightarrow> server \<Rightarrow> server" where
  "start init_ok s = snd (initializeDevice init_ok s)"

definition getSnapshotDirect :: "acq_env \<Rightarrow> server \<Rightarrow> bool \<times> server" where
  "getSnapshotDirect env s =
     (let s1 = emit AxiosGet (emit CallDirect s)
      in case axios_reply env of
           None \<Rightarrow> (False, s1)
         | Some d \<Rightarrow> writeFile (direct_write env) d s1)"

definition getSnapshotONVIF :: "acq_env \<Rightarrow> server \<Rightarrow> bool \<times> server" where
  "getSnapshotONVIF env s =
     (let s0 = emit CallOnvif s
      in case device s0 of
           None \<Rightarrow> (False, s0)
         | Some dev \<Rightarrow>
             (let s1 = emit FetchSnapshot s0
              in case onvif_reply env of
                   None \<Rightarrow> (False, s1)
                 | Some res \<Rightarrow>
                     if content_type res = Some ''image/jpeg''
                     then writeFile (onvif_write env) (body res) s1
                     else (False, s1)))"

section \<open>Acquisition\<close>

text \<open>The expression \<^verbatim>\<open>await getSnapshotDirect() || await getSnapshotONVIF()\<close>.\<close>

definition direct_or_onvif :: "acq_env \<Rightarrow> server \<Rightarrow> bool \<times> server" where
  "direct_or_onvif env s =
     (case getSnapshotDirect env s of
        (True, s1) \<Rightarrow> (True, s1)
      | (False, s1) \<Rightarrow> getSnapshotONVIF env s1)"

text \<open>\<^verbatim>\<open>pollSnapshot\<close> (push variants) has no return statement.\<close>

definition pollSnapshot :: "acq_env \<Rightarrow> server \<Rightarrow> jsval \<times> server" where
  "pollSnapshot env s =
     (case direct_or_onvif env (emit CallAcquire s) of
        (success, s1) \<Rightarrow> (Undefined, s1))"

text \<open>\<^verbatim>\<open>getSnapshot\<close> (on-demand variant) returns \<^verbatim>\<open>success\<close>.\<close>

definition getSnapshot :: "acq_env \<Rightarrow> server \<Rightarrow> jsval \<times> server" where
  "getSnapshot env s =
     (case direct_or_onvif env (emit CallAcquire s) of
        (success, s1) \<Rightarrow> (JBool success, s1))"

section \<open>Snapshot responses\<close>

definition image_response :: "bytes \<Rightarrow> response" where
  "image_response data =
     \<lparr>status = 200,
      headers = [(''Content-Type'', ''image/jpeg''),
                 (''Cache-Control'', ''no-store, no-cache, must-revalidate, proxy-revalidate''),
                 (''Pragma'', ''no-cache''),
                 (''Expires'', ''0'')],
      payload = Jpeg data\<rparr>"

text \<open>\<^verbatim>\<open>res.status(500).json({ error: 'Snapshot not available' })\<close>\<close>

definition unavailable_response :: response where
  "unavailable_response =
     \<lparr>status = 500,
      headers = [(''Content-Type'', ''application/json; charset=utf-8'')],
      payload = ErrorJson ''Snapshot not available''\<rparr>"

text \<open>\<^verbatim>\<open>res.json({ status: st, clients: n })\<close>\<close>

definition clients_response :: "string \<Rightarrow> int \<Rightarrow> response" where
  "clients_response st n =
     \<lparr>status = 200,
      headers = [(''Content-Type'', ''application/json; charset=utf-8'')],
      payload = ClientsJson st n\<rparr>"

text \<open>
  \<^verbatim>\<open>await fs.readFile(SNAPSHOT_PATH)\<close>: \<open>None\<close> when the promise is rejected, because
  the file does not exist or because it cannot be read (\<open>readable\<close> is \<open>False\<close>).
\<close>

definition readFile :: "bool \<Rightarrow> server \<Rightarrow> bytes option" where
  "readFile readable s = (if readable then snapshot_file s else None)"

definition serveSnapshot :: "bool \<Rightarrow> server \<Rightarrow> server" where
  "serveSnapshot readable s =
     (let s1 = emit ReadFile s
      in case readFile readable s1 of
           Some data \<Rightarrow> emit (Respond (image_response data)) s1
         | None \<Rightarrow> emit (Respond unavailable_response) s1)"

section \<open>On-demand variant\<close>

text \<open>The routes \<^verbatim>\<open>/snapshot.jpg\<close> and \<^verbatim>\<open>/snapshot/:name.jpg\<close> of \<^verbatim>\<open>part_001\<close>.\<close>

definition ondemand_snapshot_jpg :: "acq_env \<Rightarrow> bool \<Rightarrow> server \<Rightarrow> server" where
  "ondemand_snapshot_jpg env readable s =
     (case getSnapshot env s of (success, s1) \<Rightarrow> serveSnapshot readable s1)"

definition ondemand_snapshot_name :: "string \<Rightarrow> acq_env \<Rightarrow> bool \<Rightarrow> server \<Rightarrow> server" where
  "ondemand_snapshot_name name env readable s =
     (case getSnapshot env s of (success, s1) \<Rightarrow> serveSnapshot readable s1)"

section \<open>Push variant: the poller\<close>

text \<open>\<^verbatim>\<open>setInterval\<close> hands out a fresh handle and registers the timer.\<close>

definition setInterval :: "server \<Rightarrow> nat \<times> server" where
  "setInterval s =
     (let h = next_timer s
      in (h, (emit (SetInterval h) s)\<lparr>timers := timers s @ [h], next_timer := Suc h\<rparr>))"

definition clearInterval :: "nat \<Rightarrow> server \<Rightarrow> server" where
  "clearInterval h s = (emit (ClearInterval h) s)\<lparr>timers := removeAll h (timers s)\<rparr>"

definition startPolling :: "acq_env \<Rightarrow> server \<Rightarrow> server" where
  "startPolling env s =
     (if pollingInterval s \<noteq> None then s
      else case pollSnapshot env s of
             (r, s1) \<Rightarrow> (case setInterval s1 of
                          (h, s2) \<Rightarrow> s2\<lparr>pollingInterval := Some h\<rparr>))"

definition stopPolling :: "server \<Rightarrow> server" where
  "stopPolling s =
     (case pollingInterval s of
        None \<Rightarrow> s
      | Some h \<Rightarrow> (clearInterval h s)\<lparr>pollingInterval := None\<rparr>)"

text \<open>The runtime runs the callback of a poll timer only while the timer is registered.\<close>

definition poll_timer_fires :: "nat \<Rightarrow> acq_env \<Rightarrow> server \<Rightarrow> server" where
  "poll_timer_fires h env s = (if h \<in> set (timers s) then snd (pollSnapshot env s) else s)"

subsection \<open>Handlers, each run to completion\<close>

definition connect_handler :: "acq_env \<Rightarrow> server \<Rightarrow> server" where
  "connect_handler env s =
     (let s1 = s\<lparr>connectedClients := connectedClients s + 1\<rparr>;
          s2 = (if connectedClients s1 = 1 then startPolling env s1 else s1)
      in emit (Respond (clients_response ''connected'' (connectedClients s2))) s2)"

definition disconnect_handler :: "server \<Rightarrow> server" where
  "disconnect_handler s =
     (let s1 = s\<lparr>connectedClients := max 0 (connectedClients s - 1)\<rparr>;
          s2 = (if connectedClients s1 = 0 then stopPolling s1 else s1)
      in emit (Respond (clients_response ''disconnected'' (connectedClients s2))) s2)"

text \<open>
  The routes \<^verbatim>\<open>/snapshot.jpg\<close> and \<^verbatim>\<open>/snapshot/:name.jpg\<close> of \<^verbatim>\<open>part_000\<close> have the
  same body; \<open>now\<close> is \<^verbatim>\<open>Date.now()\<close>.
\<close>

definition snapshot_handler :: "int \<Rightarrow> acq_env \<Rightarrow> bool \<Rightarrow> server \<Rightarrow> server" where
  "snapshot_handler now env readable s =
     (let s1 = s\<lparr>lastSnapshotRequest := now\<rparr>;
          s2 = (if pollingInterval s1 = None then startPolling env s1 else s1)
      in serveSnapshot readable s2)"

text \<open>
  The callback of the module-level \<^verbatim>\<open>setInterval\<close> of \<^verbatim>\<open>part_000\<close>; \<open>timeout\<close> is
  \<^verbatim>\<open>INACTIVITY_TIMEOUT\<close>.
\<close>

definition inactivity_check :: "int \<Rightarrow> int \<Rightarrow> server \<Rightarrow> server" where
  "inactivity_check timeout now s =
     (let inactive = (now - lastSnapshotRequest s > timeout)
      in if pollingInterval s \<noteq> None \<and> inactive \<and> connectedClients s = 0
         then stopPolling s else s)"

subsection \<open>Handlers overlapping at \<^verbatim>\<open>await\<close>\<close>

text \<open>
  An \<^verbatim>\<open>async\<close> function runs until its first \<^verbatim>\<open>await\<close> on pending I/O and gives the
  event loop back; other requests are handled before it resumes. \<^verbatim>\<open>startPolling\<close> tests
  \<^verbatim>\<open>pollingInterval\<close>, then waits in \<^verbatim>\<open>await pollSnapshot()\<close>, which waits for
  \<^verbatim>\<open>axios.get\<close>; it assigns \<^verbatim>\<open>pollingInterval\<close> only after that. The two halves
  of \<^verbatim>\<open>pollSnapshot\<close> and of \<^verbatim>\<open>startPolling\<close> around this first suspension:
\<close>

definition pollSnapshot_issue :: "server \<Rightarrow> server" where
  "pollSnapshot_issue s = emit AxiosGet (emit CallDirect (emit CallAcquire s))"

definition pollSnapshot_settle :: "acq_env \<Rightarrow> server \<Rightarrow> server" where
  "pollSnapshot_settle env s =
     (case axios_reply env of
        None \<Rightarrow> snd (getSnapshotONVIF env s)
      | Some d \<Rightarrow>
          (case writeFile (direct_write env) d s of
             (True, s1) \<Rightarrow> s1
           | (False, s1) \<Rightarrow> snd (getSnapshotONVIF env s1)))"

definition startPolling_resume :: "acq_env \<Rightarrow> server \<Rightarrow> server" where
  "startPolling_resume env s =
     (case setInterval (pollSnapshot_settle env s) of
        (h, s2) \<Rightarrow> s2\<lparr>pollingInterval := Some h\<rparr>)"

text \<open>
  What the event loop runs next: a request arrives and its handler runs to its first
  suspension; the \<open>i\<close>-th suspended handler gets the answers to its acquisition and runs
  to its end; a poll timer fires; the inactivity check runs. Only the suspension of
  \<^verbatim>\<open>startPolling\<close> is split; the acquisition of a timer callback and the file read of
  \<^verbatim>\<open>serveSnapshot\<close> complete within their step.
\<close>

datatype occurrence =
    Connect
  | Disconnect
  | Snapshot int bool
  | Resume nat acq_env bool
  | PollTimer nat acq_env
  | InactivityTimer int

definition suspend :: "cont \<Rightarrow> server \<Rightarrow> server" where
  "suspend k s = s\<lparr>suspended := suspended s @ [k]\<rparr>"

fun step :: "int \<Rightarrow> occurrence \<Rightarrow> server \<Rightarrow> server" where
  "step timeout Connect s =
     (let s1 = s\<lparr>connectedClients := connectedClients s + 1\<rparr>
      in if connectedClients s1 = 1 \<and> pollingInterval s1 = None
         then suspend K_connect (pollSnapshot_issue s1)
         else emit (Respond (clients_response ''connected'' (connectedClients s1))) s1)"
| "step timeout Disconnect s = disconnect_handler s"
| "step timeout (Snapshot now readable) s =
     (let s1 = s\<lparr>lastSnapshotRequest := now\<rparr>
      in if pollingInterval s1 = None
         then suspend K_snapshot (pollSnapshot_issue s1)
         else serveSnapshot readable s1)"
| "step timeout (Resume i env readable) s =
     (if i < length (suspended s)
      then (let k = suspended s ! i;
                s1 = s\<lparr>suspended := take i (suspended s) @ drop (Suc i) (suspended s)\<rparr>;
                s2 = startPolling_resume env s1
            in case k of
                 K_connect \<Rightarrow>
                   emit (Respond (clients_response ''connected'' (connectedClients s2))) s2
               | K_snapshot \<Rightarrow> serveSnapshot readable s2)
      else s)"
| "step timeout (PollTimer h env) s = poll_timer_fires h env s"
| "step timeout (InactivityTimer now) s = inactivity_check timeout now s"

fun run :: "int \<Rightarrow> occurrence list \<Rightarrow> server \<Rightarrow> server" where
  "run timeout [] s = s"
| "run timeout (e # es) s = run timeout es (step timeout e s)"

subsection \<open>Handlers served one after the other\<close>

text \<open>
  The same occurrences when every handler runs to its end before the next one starts:
  no request arrives while another one waits in \<^verbatim>\<open>await startPolling()\<close>.
\<close>

datatype request =
    ReqConnect acq_env
  | ReqDisconnect
  | ReqSnapshot int acq_env bool
  | ReqPollTimer nat acq_env
  | ReqInactivity int

fun serve :: "int \<Rightarrow> request \<Rightarrow> server \<Rightarrow> server" where
  "serve timeout (ReqConnect env) s = connect_handler env s"
| "serve timeout ReqDisconnect s = disconnect_handler s"
| "serve timeout (ReqSnapshot now env readable) s = snapshot_handler now env readable s"
| "serve timeout (ReqPollTimer h env) s = poll_timer_fires h env s"
| "serve timeout (ReqInactivity now) s = inactivity_check timeout now s"

fun serve_all :: "int \<Rightarrow> request list \<Rightarrow> server \<Rightarrow> server" where
  "serve_all timeout [] s = s"
| "serve_all timeout (r # rs) s = serve_all timeout rs (serve timeout r s)"

section \<open>Auxiliary predicates and sample answers\<close>

text \<open>A write reply that leaves the file \<open>f\<close> as it was unless the write is fulfilled.\<close>

fun write_keeps :: "write_reply \<Rightarrow> bytes option \<Rightarrow> bool" where
  "write_keeps Written f = True"
| "write_keeps (WriteFailed left) f = (left = f)"

text \<open>The registered poll timers are exactly the one \<^verbatim>\<open>pollingInterval\<close> refers to.\<close>

definition one_timer :: "server \<Rightarrow> bool" where
  "one_timer s = (timers s = (case pollingInterval s of None \<Rightarrow> [] | Some h \<Rightarrow> [h]))"

text \<open>The camera answers the direct request; nothing answers; only ONVIF answers.\<close>

definition camera_ok :: acq_env where
  "camera_ok = \<lparr>axios_reply = Some [255, 216, 255], direct_write = Written,
                 onvif_reply = None, onvif_write = Written\<rparr>"

definition camera_down :: acq_env where
  "camera_down = \<lparr>axios_reply = None, direct_write = Written,
                   onvif_reply = None, onvif_write = Written\<rparr>"

definition onvif_only :: acq_env where
  "onvif_only = \<lparr>axios_reply = None, direct_write = Written,
                  onvif_reply = Some \<lparr>content_type = Some ''image/jpeg'', body = [255, 216, 224]\<rparr>,
                  onvif_write = Written\<rparr>"

definition onvif_not_jpeg :: acq_env where
  "onvif_not_jpeg = \<lparr>axios_reply = None, direct_write = Written,
                      onvif_reply = Some \<lparr>content_type = Some ''text/html'', body = [60, 104]\<rparr>,
                      onvif_write = Written\<rparr>"

definition disk_full :: acq_env where
  "disk_full = \<lparr>axios_reply = Some [255, 216, 255], direct_write = WriteFailed (Some []),
                 onvif_reply = None, onvif_write = Written\<rparr>"

text \<open>
  Two snapshot requests with no client connected, the second arriving while the first
  still waits for its initial acquisition; then both acquisitions settle.
\<close>

definition overlapping_snapshots :: "occurrence list" where
  "overlapping_snapshots =
     [Snapshot 1000 True, Snapshot 1000 True, Resume 0 camera_ok True, Resume 0 camera_ok True]"

section \<open>Basic facts\<close>

lemmas acq_defs = getSnapshot_def pollSnapshot_def direct_or_onvif_def getSnapshotDirect_def
  getSnapshotONVIF_def writeFile_def emit_def new_events_def Let_def

lemmas sample_defs = camera_ok_def camera_down_def onvif_only_def onvif_not_jpeg_def
  disk_full_def init_server_def start_def initializeDevice_def

lemma new_events_self_app: "trace s' = trace s @ evs \<Longrightarrow> new_events s s' = evs"
  by (simp add: new_events_def)

lemma new_events_trace_eq: "trace s = trace t \<Longrightarrow> new_events s = new_events t"
  by (simp add: new_events_def fun_eq_iff)

lemma pollSnapshot_frame:
  "connectedClients (snd (pollSnapshot env s)) = connectedClients s
   \<and> pollingInterval (snd (pollSnapshot env s)) = pollingInterval s
   \<and> timers (snd (pollSnapshot env s)) = timers s
   \<and> next_timer (snd (pollSnapshot env s)) = next_timer s
   \<and> suspended (snd (pollSnapshot env s)) = suspended s
   \<and> lastSnapshotRequest (snd (pollSnapshot env s)) = lastSnapshotRequest s
   \<and> device (snd (pollSnapshot env s)) = device s"
  by (auto simp add: acq_defs split: option.splits write_reply.splits prod.splits bool.splits)

lemma trace_pollSnapshot:
  "trace (snd (pollSnapshot env s)) = trace s @ new_events s (snd (pollSnapshot env s))"
  by (auto simp add: acq_defs split: option.splits write_reply.splits prod.splits bool.splits)

lemma count_acquire_pollSnapshot:
  "count_list (new_events s (snd (pollSnapshot env s))) CallAcquire = 1"
  by (auto simp add: acq_defs split: option.splits write_reply.splits prod.splits bool.splits)

lemma getSnapshot_events:
  "trace (snd (getSnapshot env s)) = trace s @ new_events s (snd (getSnapshot env s))
   \<and> count_list (new_events s (snd (getSnapshot env s))) CallAcquire = 1
   \<and> (\<forall>r. Respond r \<notin> set (new_events s (snd (getSnapshot env s))))
   \<and> ReadFile \<notin> set (new_events s (snd (getSnapshot env s)))"
  by (auto simp add: acq_defs split: option.splits write_reply.splits prod.splits bool.splits)

text \<open>A rejected write can alter the file although the acquisition reports failure.\<close>

lemma rejected_write_alters_store:
  "fst (getSnapshot disk_full (init_server (Some [1, 2, 3]))) = JBool False
   \<and> snapshot_file (snd (getSnapshot disk_full (init_server (Some [1, 2, 3])))) = Some []"
  by (simp add: acq_defs sample_defs)

subsection \<open>The poller\<close>

lemma startPolling_idle:
  "pollingInterval s = None \<Longrightarrow>
   startPolling env s =
     (emit (SetInterval (next_timer s)) (snd (pollSnapshot env s)))
       \<lparr>timers := timers s @ [next_timer s], next_timer := Suc (next_timer s),
        pollingInterval := Some (next_timer s)\<rparr>"
  by (simp add: startPolling_def setInterval_def Let_def pollSnapshot_frame split_beta)

lemma startPolling_active: "pollingInterval s \<noteq> None \<Longrightarrow> startPolling env s = s"
  by (simp add: startPolling_def)

lemma stopPolling_idle: "pollingInterval s = None \<Longrightarrow> stopPolling s = s"
  by (simp add: stopPolling_def)

lemma stopPolling_active:
  "pollingInterval s = Some h \<Longrightarrow>
   stopPolling s =
     (emit (ClearInterval h) s)\<lparr>timers := removeAll h (timers s), pollingInterval := None\<rparr>"
  by (simp add: stopPolling_def clearInterval_def)

lemma connect_from_idle:
  assumes "connectedClients s = 0" "pollingInterval s = None"
  shows "connect_handler env s =
     (snd (pollSnapshot env (s\<lparr>connectedClients := 1\<rparr>)))
       \<lparr>timers := timers s @ [next_timer s], next_timer := Suc (next_timer s),
        pollingInterval := Some (next_timer s),
        trace := trace s @ new_events s (snd (pollSnapshot env (s\<lparr>connectedClients := 1\<rparr>)))
                  @ [SetInterval (next_timer s), Respond (clients_response ''connected'' 1)]\<rparr>"
proof -
  let ?s1 = "s\<lparr>connectedClients := 1\<rparr>"
  have ne: "new_events ?s1 = new_events s"
    by (rule new_events_trace_eq) simp
  have "connect_handler env s =
          emit (Respond (clients_response ''connected'' (connectedClients (startPolling env ?s1))))
            (startPolling env ?s1)"
    using assms by (simp add: connect_handler_def Let_def)
  also have "startPolling env ?s1 =
     (emit (SetInterval (next_timer s)) (snd (pollSnapshot env ?s1)))
       \<lparr>timers := timers s @ [next_timer s], next_timer := Suc (next_timer s),
        pollingInterval := Some (next_timer s)\<rparr>"
    using assms startPolling_idle [of ?s1 env] by simp
  finally show ?thesis
    using trace_pollSnapshot [of env ?s1]
    by (simp add: emit_def pollSnapshot_frame ne)
qed

subsection \<open>The two halves of \<^verbatim>\<open>startPolling\<close> make up the whole\<close>

lemma pollSnapshot_split:
  "snd (pollSnapshot env s) = pollSnapshot_settle env (pollSnapshot_issue s)"
  by (auto simp add: acq_defs pollSnapshot_settle_def pollSnapshot_issue_def
      split: option.splits write_reply.splits prod.splits bool.splits)

lemma startPolling_split:
  "startPolling env s =
     (if pollingInterval s \<noteq> None then s else startPolling_resume env (pollSnapshot_issue s))"
  by (simp add: startPolling_def startPolling_resume_def pollSnapshot_split [symmetric]
      split: prod.splits)

text \<open>
  A handler that is resumed before anything else happens does what the handler run to
  completion does.
\<close>

lemma suspended_issue: "suspended (pollSnapshot_issue s) = suspended s"
  by (simp add: pollSnapshot_issue_def emit_def)

lemma resume_last:
  "suspended (suspend k t) ! length (suspended t) = k
   \<and> length (suspended t) < length (suspended (suspend k t))
   \<and> (suspend k t)\<lparr>suspended := take (length (suspended t)) (suspended (suspend k t))
          @ drop (Suc (length (suspended t))) (suspended (suspend k t))\<rparr> = t"
  by (simp add: suspend_def)

lemma connect_handler_steps:
  "connect_handler env s =
     step timeout (Resume (length (suspended s)) env readable) (step timeout Connect s)"
proof (cases "connectedClients s + 1 = 1 \<and> pollingInterval s = None")
  case True
  let ?t = "pollSnapshot_issue (s\<lparr>connectedClients := connectedClients s + 1\<rparr>)"
  have len: "length (suspended s) = length (suspended ?t)"
    by (simp add: suspended_issue)
  have "step timeout Connect s = suspend K_connect ?t"
    using True by (simp add: Let_def)
  then have "step timeout (Resume (length (suspended s)) env readable) (step timeout Connect s)
      = emit (Respond (clients_response ''connected''
               (connectedClients (startPolling_resume env ?t)))) (startPolling_resume env ?t)"
    unfolding len by (simp add: resume_last Let_def)
  moreover have "connect_handler env s
      = emit (Respond (clients_response ''connected''
               (connectedClients (startPolling_resume env ?t)))) (startPolling_resume env ?t)"
    using True by (simp add: connect_handler_def startPolling_split Let_def)
  ultimately show ?thesis by simp
next
  case False
  then have "step timeout Connect s =
      emit (Respond (clients_response ''connected'' (connectedClients s + 1)))
        (s\<lparr>connectedClients := connectedClients s + 1\<rparr>)"
    by (auto simp add: Let_def)
  moreover have "connect_handler env s =
      emit (Respond (clients_response ''connected'' (connectedClients s + 1)))
        (s\<lparr>connectedClients := connectedClients s + 1\<rparr>)"
    using False by (auto simp add: connect_handler_def startPolling_def Let_def)
  ultimately show ?thesis
    by (simp add: emit_def)
qed

lemma snapshot_handler_steps:
  "snapshot_handler now env readable s =
     step timeout (Resume (length (suspended s)) env readable)
       (step timeout (Snapshot now readable) s)"
proof (cases "pollingInterval s = None")
  case True
  let ?t = "pollSnapshot_issue (s\<lparr>lastSnapshotRequest := now\<rparr>)"
  have len: "length (suspended s) = length (suspended ?t)"
    by (simp add: suspended_issue)
  have "step timeout (Snapshot now readable) s = suspend K_snapshot ?t"
    using True by (simp add: Let_def)
  then have "step timeout (Resume (length (suspended s)) env readable)
        (step timeout (Snapshot now readable) s)
      = serveSnapshot readable (startPolling_resume env ?t)"
    unfolding len by (simp add: resume_last Let_def)
  moreover have "snapshot_handler now env readable s
      = serveSnapshot readable (startPolling_resume env ?t)"
    using True by (simp add: snapshot_handler_def startPolling_split Let_def)
  ultimately show ?thesis by simp
next
  case False
  then obtain h where h: "pollingInterval s = Some h"
    by auto
  have "suspended (serveSnapshot readable (s\<lparr>lastSnapshotRequest := now\<rparr>)) = suspended s"
    by (simp add: serveSnapshot_def emit_def Let_def split: option.splits)
  with h show ?thesis
    by (simp add: snapshot_handler_def startPolling_def Let_def)
qed

section \<open>Acquisition: result and effect on the snapshot file\<close>

text \<open>
  C1 (amended). \<^verbatim>\<open>getSnapshot\<close> returns \<^verbatim>\<open>true\<close> exactly when
  \<^verbatim>\<open>getSnapshotDirect\<close> or \<^verbatim>\<open>getSnapshotONVIF\<close> returns \<^verbatim>\<open>true\<close>, and the
  snapshot file then holds the bytes that fetcher obtained; it returns \<^verbatim>\<open>false\<close>
  exactly when both return \<^verbatim>\<open>false\<close>, and the file is then as before, provided
  that a rejected file write left the file as it was. \<^verbatim>\<open>pollSnapshot\<close> has the same
  effects and returns no value.
\<close>

theorem C1_acquisition_outcome:
  "fst (getSnapshot env s) = JBool (fst (getSnapshotDirect env s) \<or> fst (getSnapshotONVIF env s))
   \<and> fst (pollSnapshot env s) = Undefined
   \<and> snd (pollSnapshot env s) = snd (getSnapshot env s)
   \<and> (fst (getSnapshotDirect env s) \<longrightarrow>
        snapshot_file (snd (getSnapshot env s)) = axios_reply env)
   \<and> (\<not> fst (getSnapshotDirect env s) \<and> fst (getSnapshotONVIF env s) \<longrightarrow>
        snapshot_file (snd (getSnapshot env s)) = map_option body (onvif_reply env))
   \<and> (fst (getSnapshot env s) = JBool False \<and> write_keeps (direct_write env) (snapshot_file s)
        \<and> write_keeps (onvif_write env) (snapshot_file s) \<longrightarrow>
        snapshot_file (snd (getSnapshot env s)) = snapshot_file s)"
  by (auto simp add: acq_defs split: option.splits write_reply.splits prod.splits bool.splits)

theorem C1_acquisition_outcome_witness:
  "fst (getSnapshot camera_ok (init_server None)) = JBool True
   \<and> snapshot_file (snd (getSnapshot camera_ok (init_server None))) = Some [255, 216, 255]
   \<and> fst (getSnapshot onvif_only (start True (init_server None))) = JBool True
   \<and> snapshot_file (snd (getSnapshot onvif_only (start True (init_server None))))
       = Some [255, 216, 224]
   \<and> fst (getSnapshot camera_down (init_server (Some [1, 2, 3]))) = JBool False
   \<and> snapshot_file (snd (getSnapshot camera_down (init_server (Some [1, 2, 3]))))
       = Some [1, 2, 3]"
proof -
  have a: "fst (getSnapshotDirect camera_ok (init_server None))"
    by (simp add: acq_defs sample_defs)
  have b: "\<not> fst (getSnapshotDirect onvif_only (start True (init_server None)))"
    "fst (getSnapshotONVIF onvif_only (start True (init_server None)))"
    by (simp_all add: acq_defs sample_defs)
  have c: "\<not> fst (getSnapshotDirect camera_down (init_server (Some [1, 2, 3])))"
    "\<not> fst (getSnapshotONVIF camera_down (init_server (Some [1, 2, 3])))"
    "write_keeps (direct_write camera_down) (snapshot_file (init_server (Some [1, 2, 3])))"
    "write_keeps (onvif_write camera_down) (snapshot_file (init_server (Some [1, 2, 3])))"
    by (simp_all add: acq_defs sample_defs)
  have v: "axios_reply camera_ok = Some [255, 216, 255]"
    "map_option body (onvif_reply onvif_only) = Some [255, 216, 224]"
    "snapshot_file (init_server (Some [1, 2, 3])) = Some [1, 2, 3]"
    by (simp_all add: sample_defs)
  show ?thesis
    using C1_acquisition_outcome [of camera_ok "init_server None"]
      C1_acquisition_outcome [of onvif_only "start True (init_server None)"]
      C1_acquisition_outcome [of camera_down "init_server (Some [1, 2, 3])"]
      a b c
    unfolding v by simp
qed

text \<open>
  The direct fetch succeeds and the file is updated, yet \<^verbatim>\<open>pollSnapshot\<close> does not
  return \<^verbatim>\<open>true\<close>.
\<close>

theorem C1_pollSnapshot_returns_nothing:
  "fst (getSnapshotDirect camera_ok (init_server None)) = True
   \<and> snapshot_file (snd (pollSnapshot camera_ok (init_server None))) = Some [255, 216, 255]
   \<and> fst (pollSnapshot camera_ok (init_server None)) \<noteq> JBool True"
  by (simp add: acq_defs sample_defs)

text \<open>
  C2. In every acquisition the direct fetch is entered and its request issued first,
  once; \<^verbatim>\<open>getSnapshotONVIF\<close> is entered exactly when \<^verbatim>\<open>getSnapshotDirect\<close> has
  returned \<^verbatim>\<open>false\<close>, hence after it, and when the direct fetch succeeds neither the
  ONVIF function is entered nor \<^verbatim>\<open>fetchSnapshot\<close> called.
\<close>

theorem C2_direct_first_onvif_only_on_failure:
  "\<exists>rest. new_events s (snd (pollSnapshot env s)) = CallAcquire # CallDirect # AxiosGet # rest
     \<and> CallDirect \<notin> set rest \<and> AxiosGet \<notin> set rest
     \<and> (CallOnvif \<in> set rest \<longleftrightarrow> \<not> fst (getSnapshotDirect env s))
     \<and> (FetchSnapshot \<in> set rest \<longrightarrow> \<not> fst (getSnapshotDirect env s))
     \<and> new_events s (snd (getSnapshot env s)) = new_events s (snd (pollSnapshot env s))"
  by (auto simp add: acq_defs split: option.splits write_reply.splits prod.splits bool.splits)

theorem C2_direct_first_onvif_only_on_failure_witness:
  "CallOnvif \<notin> set (new_events (start True (init_server None))
      (snd (pollSnapshot camera_ok (start True (init_server None)))))
   \<and> FetchSnapshot \<notin> set (new_events (start True (init_server None))
      (snd (getSnapshot camera_ok (start True (init_server None)))))
   \<and> CallOnvif \<in> set (new_events (start True (init_server None))
      (snd (pollSnapshot onvif_only (start True (init_server None)))))
   \<and> take 2 (new_events (start True (init_server None))
      (snd (pollSnapshot onvif_only (start True (init_server None))))) = [CallAcquire, CallDirect]"
proof -
  have a: "fst (getSnapshotDirect camera_ok (start True (init_server None)))"
    by (simp add: acq_defs sample_defs)
  have b: "\<not> fst (getSnapshotDirect onvif_only (start True (init_server None)))"
    by (simp add: acq_defs sample_defs)
  show ?thesis
    using C2_direct_first_onvif_only_on_failure [of "start True (init_server None)" camera_ok]
      C2_direct_first_onvif_only_on_failure [of "start True (init_server None)" onvif_only] a b
    by auto
qed

text \<open>
  C3. After a start-up in which \<^verbatim>\<open>device.init\<close> reported an error, \<^verbatim>\<open>device\<close> still
  holds the device object, so that \<^verbatim>\<open>getSnapshotONVIF\<close> passes its guard and calls
  \<^verbatim>\<open>fetchSnapshot\<close>, whatever the outside answers.
\<close>

theorem C3_failed_init_still_fetches:
  "device (start False (init_server f)) = Some \<lparr>initialised = False\<rparr>
   \<and> take 2 (new_events (start False (init_server f))
         (snd (getSnapshotONVIF env (start False (init_server f))))) = [CallOnvif, FetchSnapshot]"
  by (auto simp add: acq_defs sample_defs split: option.splits write_reply.splits)

text \<open>With no device object at all the guard holds: failure, and no call of the library.\<close>

lemma getSnapshotONVIF_without_device:
  "device s = None \<Longrightarrow> getSnapshotONVIF env s = (False, emit CallOnvif s)"
  by (simp add: acq_defs)

text \<open>
  C4 (amended). Each fetcher writes the snapshot file itself as soon as it has the
  upstream bytes (for ONVIF: of content type \<^verbatim>\<open>image/jpeg\<close>) and returns a boolean.
  A fetcher that got no bytes writes nothing, leaves the file as it was and returns
  \<^verbatim>\<open>false\<close>: the direct fetcher when \<^verbatim>\<open>axios.get\<close> rejects; the ONVIF fetcher when
  there is no device object, when \<^verbatim>\<open>fetchSnapshot\<close> reports an error, and when the
  content type is not \<^verbatim>\<open>image/jpeg\<close>. \<^verbatim>\<open>getSnapshot\<close> and \<^verbatim>\<open>pollSnapshot\<close>
  perform no write of their own: what an acquisition does is what the fetchers it runs
  do.
\<close>

theorem C4_fetchers_write_the_file:
  "(\<forall>d. axios_reply env = Some d \<longrightarrow>
        new_events s (snd (getSnapshotDirect env s)) = [CallDirect, AxiosGet, WriteFile d])
   \<and> (axios_reply env = None \<longrightarrow>
        getSnapshotDirect env s = (False, s\<lparr>trace := trace s @ [CallDirect, AxiosGet]\<rparr>)
        \<and> new_events s (snd (getSnapshotDirect env s)) = [CallDirect, AxiosGet])
   \<and> (\<forall>res. device s \<noteq> None \<and> onvif_reply env = Some res
          \<and> content_type res = Some ''image/jpeg'' \<longrightarrow>
        new_events s (snd (getSnapshotONVIF env s)) = [CallOnvif, FetchSnapshot, WriteFile (body res)])
   \<and> (device s = None \<longrightarrow>
        getSnapshotONVIF env s = (False, s\<lparr>trace := trace s @ [CallOnvif]\<rparr>)
        \<and> new_events s (snd (getSnapshotONVIF env s)) = [CallOnvif])
   \<and> (device s \<noteq> None \<and> onvif_reply env = None \<longrightarrow>
        getSnapshotONVIF env s = (False, s\<lparr>trace := trace s @ [CallOnvif, FetchSnapshot]\<rparr>)
        \<and> new_events s (snd (getSnapshotONVIF env s)) = [CallOnvif, FetchSnapshot])
   \<and> (\<forall>res. device s \<noteq> None \<and> onvif_reply env = Some res
          \<and> content_type res \<noteq> Some ''image/jpeg'' \<longrightarrow>
        getSnapshotONVIF env s = (False, s\<lparr>trace := trace s @ [CallOnvif, FetchSnapshot]\<rparr>)
        \<and> new_events s (snd (getSnapshotONVIF env s)) = [CallOnvif, FetchSnapshot])
   \<and> new_events s (snd (getSnapshot env s)) =
        CallAcquire # new_events s (snd (getSnapshotDirect env s)) @
          (if fst (getSnapshotDirect env s) then []
           else new_events s (snd (getSnapshotONVIF env s)))
   \<and> snd (pollSnapshot env s) = snd (getSnapshot env s)"
proof -
  have direct_some: "\<forall>d. axios_reply env = Some d \<longrightarrow>
      new_events s (snd (getSnapshotDirect env s)) = [CallDirect, AxiosGet, WriteFile d]"
    by (simp add: getSnapshotDirect_def writeFile_def emit_def new_events_def Let_def
        split: write_reply.splits)
  have direct_none: "axios_reply env = None \<longrightarrow>
      getSnapshotDirect env s = (False, s\<lparr>trace := trace s @ [CallDirect, AxiosGet]\<rparr>)
      \<and> new_events s (snd (getSnapshotDirect env s)) = [CallDirect, AxiosGet]"
    by (simp add: getSnapshotDirect_def emit_def new_events_def Let_def)
  have onvif_jpeg: "\<forall>res. device s \<noteq> None \<and> onvif_reply env = Some res
        \<and> content_type res = Some ''image/jpeg'' \<longrightarrow>
      new_events s (snd (getSnapshotONVIF env s))
        = [CallOnvif, FetchSnapshot, WriteFile (body res)]"
    by (auto simp add: getSnapshotONVIF_def writeFile_def emit_def new_events_def Let_def
        split: write_reply.splits)
  have onvif_null: "device s = None \<longrightarrow>
      getSnapshotONVIF env s = (False, s\<lparr>trace := trace s @ [CallOnvif]\<rparr>)
      \<and> new_events s (snd (getSnapshotONVIF env s)) = [CallOnvif]"
    by (simp add: getSnapshotONVIF_def emit_def new_events_def Let_def)
  have onvif_error: "device s \<noteq> None \<and> onvif_reply env = None \<longrightarrow>
      getSnapshotONVIF env s = (False, s\<lparr>trace := trace s @ [CallOnvif, FetchSnapshot]\<rparr>)
      \<and> new_events s (snd (getSnapshotONVIF env s)) = [CallOnvif, FetchSnapshot]"
    by (auto simp add: getSnapshotONVIF_def emit_def new_events_def Let_def)
  have onvif_other: "\<forall>res. device s \<noteq> None \<and> onvif_reply env = Some res
        \<and> content_type res \<noteq> Some ''image/jpeg'' \<longrightarrow>
      getSnapshotONVIF env s = (False, s\<lparr>trace := trace s @ [CallOnvif, FetchSnapshot]\<rparr>)
      \<and> new_events s (snd (getSnapshotONVIF env s)) = [CallOnvif, FetchSnapshot]"
    by (auto simp add: getSnapshotONVIF_def emit_def new_events_def Let_def)
  have coordinator: "new_events s (snd (getSnapshot env s)) =
      CallAcquire # new_events s (snd (getSnapshotDirect env s)) @
        (if fst (getSnapshotDirect env s) then []
         else new_events s (snd (getSnapshotONVIF env s)))"
    by (auto simp add: acq_defs split: option.splits write_reply.splits prod.splits bool.splits)
  have same: "snd (pollSnapshot env s) = snd (getSnapshot env s)"
    by (simp add: getSnapshot_def pollSnapshot_def split: prod.splits)
  from direct_some direct_none onvif_jpeg onvif_null onvif_error onvif_other coordinator same
  show ?thesis
    by blast
qed

theorem C4_fetchers_write_the_file_witness:
  "new_events (init_server None) (snd (getSnapshotDirect camera_ok (init_server None)))
     = [CallDirect, AxiosGet, WriteFile [255, 216, 255]]
   \<and> getSnapshotDirect camera_down (init_server None)
     = (False, (init_server None)\<lparr>trace := trace (init_server None) @ [CallDirect, AxiosGet]\<rparr>)
   \<and> new_events (start True (init_server None))
        (snd (getSnapshotONVIF onvif_only (start True (init_server None))))
     = [CallOnvif, FetchSnapshot, WriteFile [255, 216, 224]]
   \<and> getSnapshotONVIF onvif_only (init_server None)
     = (False, (init_server None)\<lparr>trace := trace (init_server None) @ [CallOnvif]\<rparr>)
   \<and> getSnapshotONVIF camera_down (start True (init_server None))
     = (False, (start True (init_server None))
          \<lparr>trace := trace (start True (init_server None)) @ [CallOnvif, FetchSnapshot]\<rparr>)
   \<and> getSnapshotONVIF onvif_not_jpeg (start True (init_server None))
     = (False, (start True (init_server None))
          \<lparr>trace := trace (start True (init_server None)) @ [CallOnvif, FetchSnapshot]\<rparr>)"
proof -
  have a: "axios_reply camera_ok = Some [255, 216, 255]" "axios_reply camera_down = None"
    by (simp_all add: sample_defs)
  have b: "device (start True (init_server None)) \<noteq> None
    \<and> onvif_reply onvif_only = Some \<lparr>content_type = Some ''image/jpeg'', body = [255, 216, 224]\<rparr>
    \<and> content_type \<lparr>content_type = Some ''image/jpeg'', body = [255, 216, 224]\<rparr>
        = Some ''image/jpeg''"
    by (simp add: sample_defs emit_def)
  have c: "body \<lparr>content_type = Some ''image/jpeg'', body = [255, 216, 224]\<rparr> = [255, 216, 224]"
    by simp
  have d: "device (init_server None) = None"
    by (simp add: sample_defs)
  have e: "device (start True (init_server None)) \<noteq> None \<and> onvif_reply camera_down = None"
    by (simp add: sample_defs emit_def)
  have f: "device (start True (init_server None)) \<noteq> None
    \<and> onvif_reply onvif_not_jpeg = Some \<lparr>content_type = Some ''text/html'', body = [60, 104]\<rparr>
    \<and> content_type \<lparr>content_type = Some ''text/html'', body = [60, 104]\<rparr>
        \<noteq> Some ''image/jpeg''"
    by (simp add: sample_defs emit_def)
  show ?thesis
    using C4_fetchers_write_the_file [of camera_ok "init_server None"]
      C4_fetchers_write_the_file [of camera_down "init_server None"]
      C4_fetchers_write_the_file [of onvif_only "start True (init_server None)"]
      C4_fetchers_write_the_file [of onvif_only "init_server None"]
      C4_fetchers_write_the_file [of camera_down "start True (init_server None)"]
      C4_fetchers_write_the_file [of onvif_not_jpeg "start True (init_server None)"]
      a b c d e f
    by metis
qed

text \<open>
  \<^verbatim>\<open>getSnapshotDirect\<close> on an empty store: it writes the file itself and returns
  \<^verbatim>\<open>true\<close>, not the bytes.
\<close>

theorem C4_getSnapshotDirect_writes:
  "snapshot_file (init_server None) = None
   \<and> getSnapshotDirect camera_ok (init_server None)
      = (True, (init_server None)\<lparr>snapshot_file := Some [255, 216, 255],
                 trace := [CallDirect, AxiosGet, WriteFile [255, 216, 255]]\<rparr>)"
  by (simp add: acq_defs sample_defs)

section \<open>Push variant: connect, disconnect, inactivity\<close>

text \<open>
  C5. From the idle state (no client, no timer) a connect signal, handled to its end,
  leaves the poller polling with one registered timer, after exactly one acquisition,
  which precedes the scheduling; the disconnect signal that follows brings the count
  back to zero, clears that timer and resets \<^verbatim>\<open>pollingInterval\<close>, and no poll timer
  fires any more.
\<close>

theorem C5_connect_then_disconnect:
  assumes "connectedClients s = 0" "pollingInterval s = None" "timers s = []"
  shows "connectedClients (connect_handler env s) = 1
    \<and> pollingInterval (connect_handler env s) = Some (next_timer s)
    \<and> timers (connect_handler env s) = [next_timer s]
    \<and> new_events s (connect_handler env s) =
         new_events s (snd (pollSnapshot env (s\<lparr>connectedClients := 1\<rparr>)))
           @ [SetInterval (next_timer s), Respond (clients_response ''connected'' 1)]
    \<and> count_list (new_events s (connect_handler env s)) CallAcquire = 1
    \<and> connectedClients (disconnect_handler (connect_handler env s)) = 0
    \<and> pollingInterval (disconnect_handler (connect_handler env s)) = None
    \<and> timers (disconnect_handler (connect_handler env s)) = []
    \<and> new_events (connect_handler env s) (disconnect_handler (connect_handler env s)) =
         [ClearInterval (next_timer s), Respond (clients_response ''disconnected'' 0)]
    \<and> (\<forall>h env'. poll_timer_fires h env' (disconnect_handler (connect_handler env s))
          = disconnect_handler (connect_handler env s))"
proof -
  let ?s1 = "s\<lparr>connectedClients := 1\<rparr>"
  let ?c = "connect_handler env s"
  let ?d = "disconnect_handler ?c"
  note c = connect_from_idle [OF assms(1,2), of env]
  have ne: "new_events ?s1 = new_events s"
    by (rule new_events_trace_eq) simp
  have c1: "connectedClients ?c = 1"
    by (simp add: c pollSnapshot_frame)
  have c2: "pollingInterval ?c = Some (next_timer s)"
    by (simp add: c)
  have c3: "timers ?c = [next_timer s]"
    using assms(3) by (simp add: c)
  have c4: "new_events s ?c = new_events s (snd (pollSnapshot env ?s1))
           @ [SetInterval (next_timer s), Respond (clients_response ''connected'' 1)]"
    by (rule new_events_self_app) (simp add: c)
  have c5: "count_list (new_events s ?c) CallAcquire = 1"
    using count_acquire_pollSnapshot [of ?s1 env] by (simp add: c4 ne)
  have d: "?d = ?c\<lparr>connectedClients := 0, timers := [], pollingInterval := None,
        trace := trace ?c @ [ClearInterval (next_timer s),
                             Respond (clients_response ''disconnected'' 0)]\<rparr>"
    using c1 c2 c3
    by (simp add: disconnect_handler_def Let_def stopPolling_active [of _ "next_timer s"] emit_def)
  have d1: "connectedClients ?d = 0"
    by (simp add: d)
  have d2: "pollingInterval ?d = None"
    by (simp add: d)
  have d3: "timers ?d = []"
    by (simp add: d)
  have d4: "new_events ?c ?d =
      [ClearInterval (next_timer s), Respond (clients_response ''disconnected'' 0)]"
    by (rule new_events_self_app) (simp add: d)
  have d5: "\<forall>h env'. poll_timer_fires h env' ?d = ?d"
    by (simp add: poll_timer_fires_def d3)
  from c1 c2 c3 c4 c5 d1 d2 d3 d4 d5 show ?thesis
    by blast
qed

theorem C5_connect_then_disconnect_witness:
  "pollingInterval (connect_handler camera_ok (start True (init_server None))) = Some 0
   \<and> timers (connect_handler camera_ok (start True (init_server None))) = [0]
   \<and> count_list (new_events (start True (init_server None))
        (connect_handler camera_ok (start True (init_server None)))) CallAcquire = 1
   \<and> pollingInterval (disconnect_handler
        (connect_handler camera_ok (start True (init_server None)))) = None
   \<and> timers (disconnect_handler
        (connect_handler camera_ok (start True (init_server None)))) = []
   \<and> poll_timer_fires 0 camera_ok (disconnect_handler
        (connect_handler camera_ok (start True (init_server None))))
      = disconnect_handler (connect_handler camera_ok (start True (init_server None)))"
proof -
  have h: "connectedClients (start True (init_server None)) = 0"
    "pollingInterval (start True (init_server None)) = None"
    "timers (start True (init_server None)) = []"
    by (simp_all add: sample_defs emit_def)
  have n: "next_timer (start True (init_server None)) = 0"
    by (simp add: sample_defs emit_def)
  show ?thesis
    using C5_connect_then_disconnect [OF h, of camera_ok] unfolding n by blast
qed

text \<open>
  While polling with no client, an inactivity check that runs more than
  \<^verbatim>\<open>INACTIVITY_TIMEOUT\<close> after the last snapshot request clears the timer that
  \<^verbatim>\<open>pollingInterval\<close> refers to and resets \<^verbatim>\<open>pollingInterval\<close>; that timer fires no
  more.
\<close>

lemma inactivity_check_clears_handle:
  assumes "pollingInterval s = Some h" "connectedClients s = 0"
    and "timeout < now - lastSnapshotRequest s"
  shows "inactivity_check timeout now s =
      s\<lparr>timers := removeAll h (timers s), pollingInterval := None,
        trace := trace s @ [ClearInterval h]\<rparr>
    \<and> pollingInterval (inactivity_check timeout now s) = None
    \<and> h \<notin> set (timers (inactivity_check timeout now s))
    \<and> new_events s (inactivity_check timeout now s) = [ClearInterval h]
    \<and> (\<forall>env. poll_timer_fires h env (inactivity_check timeout now s)
          = inactivity_check timeout now s)"
proof -
  have i: "inactivity_check timeout now s =
      s\<lparr>timers := removeAll h (timers s), pollingInterval := None,
        trace := trace s @ [ClearInterval h]\<rparr>"
    using assms by (simp add: inactivity_check_def Let_def stopPolling_active [of _ h] emit_def)
  have "new_events s (inactivity_check timeout now s) = [ClearInterval h]"
    by (rule new_events_self_app) (simp add: i)
  then show ?thesis
    by (simp add: i poll_timer_fires_def)
qed

text \<open>
  When that timer is the only one registered, the poller is idle afterwards: no timer is
  left and no timer callback runs.
\<close>

lemma inactivity_check_to_idle:
  assumes "pollingInterval s = Some h" "connectedClients s = 0"
    and "timeout < now - lastSnapshotRequest s" and "timers s = [h]"
  shows "pollingInterval (inactivity_check timeout now s) = None
    \<and> timers (inactivity_check timeout now s) = []
    \<and> (\<forall>k env. poll_timer_fires k env (inactivity_check timeout now s)
          = inactivity_check timeout now s)"
  using inactivity_check_clears_handle [OF assms(1-3)] assms(4)
  by (simp add: poll_timer_fires_def)

text \<open>
  C6. After two snapshot requests with no client, the second arriving while the first
  still waits in \<^verbatim>\<open>startPolling\<close>, two poll timers are registered and
  \<^verbatim>\<open>pollingInterval\<close> refers to the second. The poller is polling, no client is
  connected and the last snapshot request is older than the inactivity window, yet
  after the inactivity check the first timer is still registered and its callback still
  acquires: the poller is not idle.
\<close>

theorem C6_inactivity_check_leaves_orphan_timer:
  "pollingInterval (run 30000 overlapping_snapshots (start True (init_server None))) = Some 1
   \<and> connectedClients (run 30000 overlapping_snapshots (start True (init_server None))) = 0
   \<and> lastSnapshotRequest (run 30000 overlapping_snapshots (start True (init_server None))) = 1000
   \<and> timers (run 30000 overlapping_snapshots (start True (init_server None))) = [0, 1]
   \<and> pollingInterval (run 30000 (overlapping_snapshots @ [InactivityTimer 31001])
        (start True (init_server None))) = None
   \<and> timers (run 30000 (overlapping_snapshots @ [InactivityTimer 31001])
        (start True (init_server None))) = [0]
   \<and> new_events
        (run 30000 (overlapping_snapshots @ [InactivityTimer 31001])
           (start True (init_server None)))
        (run 30000 (overlapping_snapshots @ [InactivityTimer 31001, PollTimer 0 camera_ok])
           (start True (init_server None)))
      = [CallAcquire, CallDirect, AxiosGet, WriteFile [255, 216, 255]]"
  by (simp add: overlapping_snapshots_def sample_defs acq_defs suspend_def
      pollSnapshot_issue_def pollSnapshot_settle_def startPolling_resume_def setInterval_def
      serveSnapshot_def readFile_def inactivity_check_def stopPolling_def clearInterval_def
      poll_timer_fires_def)

section \<open>On-demand variant\<close>

text \<open>
  C7. Each of the two snapshot routes of the on-demand variant performs exactly one
  acquisition, then reads the file as the acquisition left it and answers from what it
  read; nothing is answered before the acquisition has ended.
\<close>

theorem C7_one_acquisition_before_response:
  "new_events s (ondemand_snapshot_jpg env readable s) =
      new_events s (snd (getSnapshot env s))
        @ [ReadFile,
           Respond (case readFile readable (snd (getSnapshot env s)) of
                      Some data \<Rightarrow> image_response data
                    | None \<Rightarrow> unavailable_response)]
   \<and> count_list (new_events s (ondemand_snapshot_jpg env readable s)) CallAcquire = 1
   \<and> (\<forall>r. Respond r \<notin> set (new_events s (snd (getSnapshot env s))))
   \<and> ondemand_snapshot_name name env readable s = ondemand_snapshot_jpg env readable s"
proof -
  let ?g = "snd (getSnapshot env s)"
  let ?r = "case readFile readable ?g of Some data \<Rightarrow> image_response data
             | None \<Rightarrow> unavailable_response"
  have "trace (ondemand_snapshot_jpg env readable s) = trace ?g @ [ReadFile, Respond ?r]"
    by (simp add: ondemand_snapshot_jpg_def serveSnapshot_def readFile_def emit_def Let_def
        split_beta split: option.splits)
  then have "trace (ondemand_snapshot_jpg env readable s) =
      trace s @ (new_events s ?g @ [ReadFile, Respond ?r])"
    using getSnapshot_events [of env s] by simp
  then have e: "new_events s (ondemand_snapshot_jpg env readable s) =
      new_events s ?g @ [ReadFile, Respond ?r]"
    by (rule new_events_self_app)
  have n: "ondemand_snapshot_name name env readable s = ondemand_snapshot_jpg env readable s"
    by (simp add: ondemand_snapshot_name_def ondemand_snapshot_jpg_def)
  show ?thesis
    using getSnapshot_events [of env s] by (simp add: e n)
qed

theorem C7_one_acquisition_before_response_witness:
  "new_events (init_server None) (ondemand_snapshot_jpg camera_ok True (init_server None)) =
     [CallAcquire, CallDirect, AxiosGet, WriteFile [255, 216, 255], ReadFile,
      Respond (image_response [255, 216, 255])]
   \<and> ondemand_snapshot_name ''abc'' camera_ok True (init_server None)
      = ondemand_snapshot_jpg camera_ok True (init_server None)"
proof -
  have g: "new_events (init_server None) (snd (getSnapshot camera_ok (init_server None)))
      = [CallAcquire, CallDirect, AxiosGet, WriteFile [255, 216, 255]]"
    "readFile True (snd (getSnapshot camera_ok (init_server None))) = Some [255, 216, 255]"
    by (simp_all add: acq_defs sample_defs readFile_def)
  show ?thesis
    using C7_one_acquisition_before_response [of "init_server None" camera_ok True "''abc''"]
    unfolding g by simp
qed

section \<open>Serving a missing snapshot\<close>

text \<open>
  C8. Whenever the snapshot file does not exist (no snapshot was ever written) or cannot
  be read, the read fails, and \<^verbatim>\<open>serveSnapshot\<close> always sends the same answer and
  nothing else: a server-error response (status 500) with the JSON body
  \<^verbatim>\<open>{ error: 'Snapshot not available' }\<close>, and no image bytes.
\<close>

theorem C8_missing_snapshot_is_500:
  assumes "snapshot_file s = None \<or> \<not> readable"
  shows "readFile readable s = None
    \<and> serveSnapshot readable s = s\<lparr>trace := trace s @ [ReadFile, Respond unavailable_response]\<rparr>
    \<and> status unavailable_response = 500
    \<and> payload unavailable_response = ErrorJson ''Snapshot not available''
    \<and> (\<forall>d. payload unavailable_response \<noteq> Jpeg d)"
  using assms
  by (auto simp add: serveSnapshot_def readFile_def emit_def unavailable_response_def Let_def)

theorem C8_missing_snapshot_is_500_witness:
  "serveSnapshot True (init_server None)
     = (init_server None)\<lparr>trace := [ReadFile, Respond unavailable_response]\<rparr>
   \<and> serveSnapshot False (init_server (Some [1, 2, 3]))
     = (init_server (Some [1, 2, 3]))\<lparr>trace := [ReadFile, Respond unavailable_response]\<rparr>"
proof -
  have h: "snapshot_file (init_server None) = None \<or> \<not> True"
    "snapshot_file (init_server (Some [1, 2, 3])) = None \<or> \<not> False"
    by (simp_all add: init_server_def)
  have t: "trace (init_server None) = []" "trace (init_server (Some [1, 2, 3])) = []"
    by (simp_all add: init_server_def)
  show ?thesis
    using C8_missing_snapshot_is_500 [OF h(1)] C8_missing_snapshot_is_500 [OF h(2)]
    unfolding t by simp
qed

section \<open>The client counter\<close>

lemma clients_settle: "connectedClients (pollSnapshot_settle env s) = connectedClients s"
  by (auto simp add: acq_defs pollSnapshot_settle_def
      split: option.splits write_reply.splits prod.splits bool.splits)

lemma clients_issue: "connectedClients (pollSnapshot_issue s) = connectedClients s"
  by (simp add: pollSnapshot_issue_def emit_def)

lemma clients_resume: "connectedClients (startPolling_resume env s) = connectedClients s"
  by (simp add: startPolling_resume_def setInterval_def emit_def Let_def clients_settle)

lemma clients_stopPolling: "connectedClients (stopPolling s) = connectedClients s"
  by (simp add: stopPolling_def clearInterval_def emit_def split: option.splits)

lemma clients_startPolling: "connectedClients (startPolling env s) = connectedClients s"
  by (simp add: startPolling_def setInterval_def emit_def Let_def split_beta pollSnapshot_frame)

lemma clients_serveSnapshot: "connectedClients (serveSnapshot readable s) = connectedClients s"
  by (simp add: serveSnapshot_def emit_def Let_def split: option.splits)

lemma clients_connect_handler:
  "connectedClients (connect_handler env s) = connectedClients s + 1"
  by (simp add: connect_handler_def Let_def emit_def clients_startPolling)

lemma clients_disconnect_handler:
  "connectedClients (disconnect_handler s) = max 0 (connectedClients s - 1)"
  by (simp add: disconnect_handler_def Let_def emit_def clients_stopPolling)

lemma clients_step_Connect: "connectedClients (step timeout Connect s) = connectedClients s + 1"
  by (simp add: Let_def emit_def suspend_def clients_issue)

lemma clients_step_nonneg:
  assumes "0 \<le> connectedClients s"
  shows "0 \<le> connectedClients (step timeout e s)"
proof (cases e)
  case Connect
  then show ?thesis
    using assms by (simp only: clients_step_Connect)
next
  case Disconnect
  then show ?thesis
    by (simp add: clients_disconnect_handler)
next
  case (Snapshot now readable)
  then show ?thesis
    using assms by (simp add: Let_def suspend_def clients_issue clients_serveSnapshot)
next
  case (Resume i env readable)
  then show ?thesis
    using assms
    by (simp add: Let_def emit_def clients_resume clients_serveSnapshot split: cont.splits)
next
  case (PollTimer h env)
  then show ?thesis
    using assms by (simp add: poll_timer_fires_def pollSnapshot_frame)
next
  case (InactivityTimer now)
  then show ?thesis
    using assms by (simp add: inactivity_check_def Let_def clients_stopPolling)
qed

lemma clients_run_nonneg:
  "0 \<le> connectedClients s \<Longrightarrow> 0 \<le> connectedClients (run timeout es s)"
  by (induction es arbitrary: s) (simp_all add: clients_step_nonneg)

lemma clients_start: "connectedClients (start init_ok (init_server f)) = 0"
  by (simp add: sample_defs emit_def Let_def)

text \<open>
  C9. The client count is never negative, whatever requests, resumptions and timer
  callbacks the event loop runs after start-up; a connect signal adds one to it (at once,
  before the handler suspends), a disconnect signal takes one off but not below zero, and
  at zero a disconnect signal leaves it at zero and is answered like any other.
\<close>

theorem C9_client_count:
  "0 \<le> connectedClients (run timeout es (start init_ok (init_server f)))
   \<and> connectedClients (connect_handler env s) = connectedClients s + 1
   \<and> connectedClients (step timeout Connect s) = connectedClients s + 1
   \<and> connectedClients (disconnect_handler s) = max 0 (connectedClients s - 1)
   \<and> (connectedClients s = 0 \<longrightarrow>
        connectedClients (disconnect_handler s) = 0
        \<and> last (trace (disconnect_handler s)) = Respond (clients_response ''disconnected'' 0))"
proof -
  have "0 \<le> connectedClients (run timeout es (start init_ok (init_server f)))"
    by (rule clients_run_nonneg) (simp add: clients_start)
  moreover have "connectedClients s = 0 \<Longrightarrow>
      last (trace (disconnect_handler s)) = Respond (clients_response ''disconnected'' 0)"
    by (simp add: disconnect_handler_def Let_def emit_def clients_stopPolling)
  ultimately show ?thesis
    by (simp add: clients_connect_handler clients_step_Connect clients_disconnect_handler
        del: step.simps)
qed

theorem C9_client_count_witness:
  "connectedClients (start True (init_server None)) = 0
   \<and> connectedClients (disconnect_handler (start True (init_server None))) = 0
   \<and> last (trace (disconnect_handler (start True (init_server None))))
       = Respond (clients_response ''disconnected'' 0)
   \<and> connectedClients (connect_handler camera_ok (start True (init_server None))) = 1
   \<and> 0 \<le> connectedClients (run 30000 [Disconnect, Connect, Disconnect, Disconnect]
        (start True (init_server None)))"
proof -
  have h: "connectedClients (start True (init_server None)) = 0"
    by (rule clients_start)
  show ?thesis
    using C9_client_count [of 30000 "[Disconnect, Connect, Disconnect, Disconnect]" True None
        camera_ok "start True (init_server None)"] h
    by (simp del: run.simps step.simps)
qed

text \<open>While idle with no client, a disconnect signal changes nothing but the answer sent.\<close>

lemma disconnect_idle_noop:
  "connectedClients s = 0 \<Longrightarrow> pollingInterval s = None \<Longrightarrow>
   disconnect_handler s = emit (Respond (clients_response ''disconnected'' 0)) s"
  by (cases s) (simp add: disconnect_handler_def Let_def stopPolling_def emit_def)

section \<open>How many poll timers\<close>

lemma one_timer_startPolling: "one_timer s \<Longrightarrow> one_timer (startPolling env s)"
  by (simp add: one_timer_def startPolling_def setInterval_def emit_def Let_def split_beta
      pollSnapshot_frame split: option.splits)

lemma one_timer_stopPolling: "one_timer s \<Longrightarrow> one_timer (stopPolling s)"
  by (simp add: one_timer_def stopPolling_def clearInterval_def emit_def split: option.splits)

lemma one_timer_upd:
  "one_timer (s\<lparr>connectedClients := c\<rparr>) = one_timer s"
  "one_timer (s\<lparr>lastSnapshotRequest := t\<rparr>) = one_timer s"
  "one_timer (emit e s) = one_timer s"
  by (simp_all add: one_timer_def emit_def)

lemma one_timer_serveSnapshot: "one_timer (serveSnapshot readable s) = one_timer s"
  by (simp add: serveSnapshot_def Let_def one_timer_upd split: option.splits)

lemma one_timer_serve: "one_timer s \<Longrightarrow> one_timer (serve timeout r s)"
proof (induction timeout r s rule: serve.induct)
  case (1 timeout env s)
  then show ?case
    by (simp add: connect_handler_def Let_def one_timer_upd one_timer_startPolling)
next
  case (2 timeout s)
  then show ?case
    by (simp add: disconnect_handler_def Let_def one_timer_upd one_timer_stopPolling)
next
  case (3 timeout now env readable s)
  then show ?case
    by (simp add: snapshot_handler_def Let_def one_timer_upd one_timer_startPolling
        one_timer_serveSnapshot)
next
  case (4 timeout h env s)
  then show ?case
    by (simp add: poll_timer_fires_def one_timer_def pollSnapshot_frame)
next
  case (5 timeout now s)
  then show ?case
    by (simp add: inactivity_check_def Let_def one_timer_stopPolling)
qed

lemma one_timer_serve_all: "one_timer s \<Longrightarrow> one_timer (serve_all timeout rs s)"
  by (induction rs arbitrary: s) (simp_all add: one_timer_serve)

text \<open>
  As long as every handler runs to its end before the next request arrives, at most one
  poll timer is registered.
\<close>

lemma serial_at_most_one_timer:
  "length (timers (serve_all timeout rs (start init_ok (init_server f)))) \<le> 1"
proof -
  have "one_timer (start init_ok (init_server f))"
    by (simp add: one_timer_def sample_defs emit_def Let_def)
  then have "one_timer (serve_all timeout rs (start init_ok (init_server f)))"
    by (rule one_timer_serve_all)
  then show ?thesis
    by (simp add: one_timer_def split: option.splits)
qed

text \<open>
  C10. A first \<^verbatim>\<open>/connect\<close> and a snapshot request that arrives while the connect
  handler still waits for its initial acquisition both pass the guard of
  \<^verbatim>\<open>startPolling\<close>; each then registers a timer, and \<^verbatim>\<open>pollingInterval\<close> keeps the
  second handle only. The disconnect signal that follows clears the second timer; the
  first stays registered with no handle left to clear it. In \<^verbatim>\<open>server.js\<close>, which has
  no snapshot route, connect, disconnect, connect in that window do the same.
\<close>

theorem C10_overlapping_requests_two_timers:
  "timers (run 30000 [Connect, Snapshot 1000 True, Resume 0 camera_ok True,
                      Resume 0 camera_ok True] (start True (init_server None))) = [0, 1]
   \<and> pollingInterval (run 30000 [Connect, Snapshot 1000 True, Resume 0 camera_ok True,
                      Resume 0 camera_ok True] (start True (init_server None))) = Some 1
   \<and> timers (run 30000 [Connect, Snapshot 1000 True, Resume 0 camera_ok True,
                      Resume 0 camera_ok True, Disconnect] (start True (init_server None))) = [0]
   \<and> pollingInterval (run 30000 [Connect, Snapshot 1000 True, Resume 0 camera_ok True,
                      Resume 0 camera_ok True, Disconnect] (start True (init_server None))) = None
   \<and> timers (run 30000 [Connect, Disconnect, Connect, Resume 0 camera_ok True,
                      Resume 0 camera_ok True] (start True (init_server None))) = [0, 1]"
  by (simp add: sample_defs emit_def Let_def suspend_def pollSnapshot_issue_def
      pollSnapshot_settle_def startPolling_resume_def setInterval_def writeFile_def
      serveSnapshot_def readFile_def disconnect_handler_def stopPolling_def clearInterval_def)

end
